theory Spec2Isabelle
  imports Complex_Main
begin

section \<open>Dates as the scanner reads them\<close>

text \<open>
  The scanner screen only ever reads a JavaScript \<^verbatim>\<open>Date\<close> through its local-time
  getters, so a valid date is the record of what those getters return.
  \<open>getMonth\<close> is zero-based (January is 0), \<open>getDate\<close> is the day of the month.
\<close>

record Date =
  getFullYear :: int
  getMonth :: nat
  getDate :: nat
  getHours :: nat
  getMinutes :: nat

text \<open>
  \<^verbatim>\<open>new Date(text)\<close> belongs to the JavaScript runtime, not to this repository, and
  what the local-time getters show of its result depends on the zone of the device the
  scanner runs on. In the functions below it is therefore a parameter \<open>newDate\<close> of
  type \<open>string \<Rightarrow> Date option\<close>, where \<open>None\<close> stands for \<^verbatim>\<open>Invalid Date\<close>: all its
  getters return \<^verbatim>\<open>NaN\<close>, and \<^verbatim>\<open>NaN\<close> is strictly equal to nothing.
\<close>

subsection \<open>Date-only texts on a device with a fixed offset from UTC\<close>

text \<open>
  The text of a calendar date as the profile store writes it: four digits of the
  year, two of the month, two of the day, with hyphens. \<open>validDate\<close> says that the
  three numbers name a day of the calendar.
\<close>

definition isLeapYear :: "nat \<Rightarrow> bool" where
  "isLeapYear y = ((y mod 4 = 0 \<and> y mod 100 \<noteq> 0) \<or> y mod 400 = 0)"

definition daysInMonth :: "nat \<Rightarrow> nat \<Rightarrow> nat" where
  "daysInMonth y m =
     (if m = 2 then (if isLeapYear y then 29 else 28)
      else if m = 4 \<or> m = 6 \<or> m = 9 \<or> m = 11 then 30
      else 31)"

definition validDate :: "nat \<Rightarrow> nat \<Rightarrow> nat \<Rightarrow> bool" where
  "validDate y m d = (y < 10000 \<and> 1 \<le> m \<and> m \<le> 12 \<and> 1 \<le> d \<and> d \<le> daysInMonth y m)"

definition digitChar :: "nat \<Rightarrow> char" where
  "digitChar n = char_of (48 + n)"

definition pad2 :: "nat \<Rightarrow> string" where
  "pad2 n = [digitChar (n div 10), digitChar (n mod 10)]"

definition pad4 :: "nat \<Rightarrow> string" where
  "pad4 n = [digitChar (n div 1000), digitChar (n div 100 mod 10),
             digitChar (n div 10 mod 10), digitChar (n mod 10)]"

definition isoDate :: "nat \<Rightarrow> nat \<Rightarrow> nat \<Rightarrow> string" where
  "isoDate y m d = pad4 y @ ''-'' @ pad2 m @ ''-'' @ pad2 d"

definition digit :: "char \<Rightarrow> nat option" where
  "digit c =
     (let n = (of_char c :: nat) in if 48 \<le> n \<and> n \<le> 57 then Some (n - 48) else None)"

fun digits :: "nat \<Rightarrow> string \<Rightarrow> nat option" where
  "digits acc [] = Some acc"
| "digits acc (c # cs) =
     (case digit c of None \<Rightarrow> None | Some d \<Rightarrow> digits (acc * 10 + d) cs)"

text \<open>The calendar day before a given one: year, month (1 to 12), day.\<close>

definition previousDay :: "nat \<Rightarrow> nat \<Rightarrow> nat \<Rightarrow> int \<times> nat \<times> nat" where
  "previousDay y m d =
     (if d > 1 then (int y, m, d - 1)
      else if m > 1 then (int y, m - 1, daysInMonth y (m - 1))
      else (int y - 1, 12, 31))"

text \<open>
  JavaScript reads a date-only text \<^verbatim>\<open>YYYY-MM-DD\<close> as midnight UTC of that day. On a
  device whose zone stands \<open>offset\<close> minutes east of UTC (negative: west) the
  local-time getters show that instant as \<open>offset\<close> minutes past midnight of the same
  day, or, west of UTC, as that many minutes before the end of the day before.
  \<open>dateOnly offset\<close> is this reading, for a zone of one fixed offset of less than a
  day and for a text that names a calendar day. It is applied below to such texts
  only: on every other text it answers \<open>None\<close>, which need not be what a runtime
  does there (some roll a day past the end of a month over, and texts of other
  forms parse too).
\<close>

definition dateOnly :: "int \<Rightarrow> string \<Rightarrow> Date option" where
  "dateOnly offset s =
     (if length s = 10 \<and> s ! 4 = CHR ''-'' \<and> s ! 7 = CHR ''-'' then
        (case (digits 0 (take 4 s), digits 0 (take 2 (drop 5 s)), digits 0 (drop 8 s)) of
           (Some y, Some m, Some d) \<Rightarrow>
             if 1 \<le> m \<and> m \<le> 12 \<and> 1 \<le> d \<and> d \<le> daysInMonth y m then
               (if 0 \<le> offset \<and> offset < 1440 then
                  Some \<lparr>getFullYear = int y, getMonth = m - 1, getDate = d,
                        getHours = nat (offset div 60), getMinutes = nat (offset mod 60)\<rparr>
                else if - 1440 \<le> offset \<and> offset < 0 then
                  (case previousDay y m d of
                     (py, pm, pd) \<Rightarrow>
                       Some \<lparr>getFullYear = py, getMonth = pm - 1, getDate = pd,
                             getHours = nat ((1440 + offset) div 60),
                             getMinutes = nat ((1440 + offset) mod 60)\<rparr>)
                else None)
             else None
         | _ \<Rightarrow> None)
      else None)"

section \<open>The scanner screen (AdminScanner)\<close>

subsection \<open>checkIfBirthday\<close>

text \<open>
  \<open>newDate\<close> is the runtime's \<^verbatim>\<open>new Date(text)\<close>; \<open>today\<close> is the value of
  \<^verbatim>\<open>new Date()\<close> at the call; \<open>birthday\<close> is the profile's column, \<open>None\<close> when it
  is null. Null and the empty string are the falsy values the first line returns
  false on.
\<close>

definition checkIfBirthday :: "(string \<Rightarrow> Date option) \<Rightarrow> Date \<Rightarrow> string option \<Rightarrow> bool" where
  "checkIfBirthday newDate today birthday =
     (case birthday of
        None \<Rightarrow> False
      | Some b \<Rightarrow>
          if b = [] then False
          else (case newDate b of
                  None \<Rightarrow> False
                | Some birthDate \<Rightarrow>
                    getMonth today = getMonth birthDate \<and>
                    getDate today = getDate birthDate))"

subsection \<open>getAttendanceStatus\<close>

datatype AttendanceStatus = present | late | absent | half_day

text \<open>\<open>now\<close> is the value of \<^verbatim>\<open>new Date()\<close> read inside the function.\<close>

definition getAttendanceStatus :: "Date \<Rightarrow> AttendanceStatus" where
  "getAttendanceStatus now =
     (let hours = getHours now;
          minutes = getMinutes now;
          currentTime = hours * 60 + minutes
      in if currentTime \<ge> 360 \<and> currentTime < 480 then present
         else if currentTime \<ge> 480 \<and> currentTime < 720 then late
         else if currentTime \<ge> 720 \<and> currentTime \<le> 795 then present
         else if currentTime \<ge> 1050 then absent
         else present)"

subsection \<open>What a scan reads and what it does\<close>

text \<open>
  The decoded QR code. \<^verbatim>\<open>JSON.parse(rawValue)\<close> either yields the student object
  \<^verbatim>\<open>{user_id, name, section}\<close> or fails (the text is not JSON, or it parses to
  null so that reading \<^verbatim>\<open>studentData.user_id\<close> throws): \<open>Unusable\<close>.
\<close>

record ScanPayload =
  user_id :: string
  name :: string
  class_section :: string

datatype QrText = Unusable | Json ScanPayload

text \<open>
  The argument of \<open>handleScan\<close>: a falsy value, an array of detected codes, or one
  detected code. \<open>rawValue\<close> of a code is \<open>None\<close> when it is missing or the empty
  string (both falsy).
\<close>

datatype ScanResult = Falsy | Codes "QrText option list" | Code "QrText option"

text \<open>The columns of a profile row that the scanner reads; null is \<open>None\<close>.\<close>

record StudentProfile =
  birthday :: "string option"
  email :: "string option"
  parent_number :: "string option"
  parent_guardian_name :: "string option"

text \<open>
  A row of the attendance table as the duplicate check reads it:
  \<^verbatim>\<open>new Date(a.scanned_at)\<close>, the stored timestamp in local time.
\<close>

record AttendanceRecord =
  scanned_at :: Date

text \<open>
  What \<^verbatim>\<open>supabase.functions.invoke\<close> does when awaited: it resolves with data,
  resolves with an error object, or throws.
\<close>

datatype Invocation = Resolves_data | Resolves_error | Throws

text \<open>
  Everything outside the function that one pass of \<open>handleScan\<close> reads: the
  component state, the runtime's \<^verbatim>\<open>new Date(text)\<close>, the three readings of the clock (in \<open>checkIfBirthday\<close>, in
  \<open>getAttendanceStatus\<close> and in \<open>handleScan\<close> itself), the two queries, and how
  the insert and the three delivery functions answer.
\<close>

record Env =
  scanning :: bool
  user :: "string option"
  newDate :: "string \<Rightarrow> Date option"
  today :: Date
  status_now :: Date
  now :: Date
  profiles :: "string \<Rightarrow> StudentProfile option"
  existingAttendance :: "string \<Rightarrow> AttendanceRecord list option"
  insert_error :: bool
  send_email :: Invocation
  send_notification :: Invocation
  send_sms :: Invocation

datatype Error =
    Invalid_scan_result
  | Json_parse_error
  | Profile_not_found
  | Insert_error
  | Invoke_threw

datatype ToastKind =
    Already_marked_today bool
  | Already_marked_this_session bool
  | Attendance_recorded bool AttendanceStatus
  | Scan_failed

datatype Callback = Resume_scanning | Reset_after_recording

datatype PushTitle = Late_arrival_alert | Absence_alert | Half_day_alert

datatype SmsTemplate = Sms_entered | Sms_late | Sms_absent | Sms_half_day

datatype LogTag =
    Email_failed | Push_failed | Push_unexpected | Sms_failed | Sms_unexpected | Scan_error

text \<open>
  The effects of a pass, in the order they happen. The row to insert carries
  student id, student name, section, scanning admin, status and
  \<open>parent_notified\<close>; the email call carries address, recipient name, student name
  and status; the push call student id, title and status; the SMS call phone
  number, message template and student id.
\<close>

datatype Effect =
    Set_scanning bool
  | Set_is_birthday bool
  | Play_birthday_animation
  | Toast ToastKind
  | Set_timeout Callback nat
  | Insert_attendance string string string string AttendanceStatus bool
  | Set_scanned_student AttendanceStatus
  | Invoke_send_email string string string AttendanceStatus
  | Invoke_send_notification string PushTitle AttendanceStatus
  | Invoke_send_sms string SmsTemplate string
  | Console_error LogTag

datatype Outcome =
    Ignored
  | Failed Error
  | Rejected_both_sessions
  | Rejected_this_session
  | Recorded AttendanceStatus

text \<open>A string column is truthy when it is neither null nor empty.\<close>

definition truthy :: "string option \<Rightarrow> bool" where
  "truthy v = (case v of None \<Rightarrow> False | Some s \<Rightarrow> s \<noteq> [])"

definition or_else :: "string option \<Rightarrow> string \<Rightarrow> string" where
  "or_else v d = (if truthy v then the v else d)"

subsection \<open>The duplicate check of handleScan\<close>

datatype Rejection = Both_sessions | This_session

definition sessionCheck :: "AttendanceRecord list option \<Rightarrow> nat \<Rightarrow> Rejection option" where
  "sessionCheck existing hours =
     (case existing of
        None \<Rightarrow> None
      | Some rows \<Rightarrow>
          if length rows > 0 then
            (let morningScans =
                   filter (\<lambda>a. let scanHour = getHours (scanned_at a)
                                in scanHour \<ge> 6 \<and> scanHour < 12) rows;
                 afternoonScans =
                   filter (\<lambda>a. let scanHour = getHours (scanned_at a)
                                in scanHour \<ge> 12 \<and> scanHour < 16) rows;
                 currentlyMorning = (hours \<ge> 6 \<and> hours < 12);
                 currentlyAfternoon = (hours \<ge> 12 \<and> hours < 16)
             in if (currentlyMorning \<and> length afternoonScans > 0) \<or>
                   (currentlyAfternoon \<and> length morningScans > 0)
                then Some Both_sessions
                else if (currentlyMorning \<and> length morningScans > 0) \<or>
                        (currentlyAfternoon \<and> length afternoonScans > 0)
                then Some This_session
                else None)
          else None)"

subsection \<open>The three notifications of handleScan\<close>

text \<open>
  Each step returns its effects and whether an exception leaves it. The email call
  stands directly in the body of the outer \<^verbatim>\<open>try\<close>; the push and the SMS calls
  each stand in a \<^verbatim>\<open>try\<close> of their own.
\<close>

definition emailStep ::
  "Env \<Rightarrow> ScanPayload \<Rightarrow> StudentProfile \<Rightarrow> AttendanceStatus \<Rightarrow> Effect list \<times> Error option" where
  "emailStep env studentData profile finalStatus =
     (if truthy (email profile) then
        (let call = Invoke_send_email (the (email profile))
                      (or_else (parent_guardian_name profile) ''Parent/Guardian'')
                      (name studentData) finalStatus
         in case send_email env of
              Throws \<Rightarrow> ([call], Some Invoke_threw)
            | Resolves_error \<Rightarrow> ([call, Console_error Email_failed], None)
            | Resolves_data \<Rightarrow> ([call], None))
      else ([], None))"

definition pushStep :: "Env \<Rightarrow> ScanPayload \<Rightarrow> AttendanceStatus \<Rightarrow> Effect list" where
  "pushStep env studentData finalStatus =
     (if finalStatus = late \<or> finalStatus = absent \<or> finalStatus = half_day then
        (let notificationTitle =
               (if finalStatus = late then Late_arrival_alert
                else if finalStatus = absent then Absence_alert
                else Half_day_alert);
             call = Invoke_send_notification (user_id studentData) notificationTitle finalStatus
         in case send_notification env of
              Throws \<Rightarrow> [call, Console_error Push_unexpected]
            | Resolves_error \<Rightarrow> [call, Console_error Push_failed]
            | Resolves_data \<Rightarrow> [call])
      else [])"

definition smsStep ::
  "Env \<Rightarrow> ScanPayload \<Rightarrow> StudentProfile \<Rightarrow> AttendanceStatus \<Rightarrow> Effect list" where
  "smsStep env studentData profile finalStatus =
     (if truthy (parent_number profile) then
        (let smsMessage =
               (if finalStatus = present then Sms_entered
                else if finalStatus = late then Sms_late
                else if finalStatus = absent then Sms_absent
                else Sms_half_day);
             call = Invoke_send_sms (the (parent_number profile)) smsMessage
                      (user_id studentData)
         in case send_sms env of
              Throws \<Rightarrow> [call, Console_error Sms_unexpected]
            | Resolves_error \<Rightarrow> [call, Console_error Sms_failed]
            | Resolves_data \<Rightarrow> [call])
      else [])"

subsection \<open>handleScan\<close>

text \<open>
  \<^verbatim>\<open>Array.isArray(result) ? result[0]?.rawValue : result?.rawValue\<close>: the first
  code of an array (nothing when the array is empty), or the code itself.
\<close>

definition rawValueOf :: "ScanResult \<Rightarrow> QrText option" where
  "rawValueOf result =
     (case result of
        Falsy \<Rightarrow> None
      | Codes cs \<Rightarrow> (case cs of [] \<Rightarrow> None | c # _ \<Rightarrow> c)
      | Code c \<Rightarrow> c)"

text \<open>
  The body of the outer \<^verbatim>\<open>try\<close>: its effects, and either the exception that
  leaves it (\<open>Inl\<close>) or how the pass ends. \<open>Insert_attendance\<close> stands for a row
  the table accepted: when the insert answers with an error the body throws and no
  row exists.
\<close>

definition scanBody :: "Env \<Rightarrow> ScanResult \<Rightarrow> Effect list \<times> (Error + Outcome)" where
  "scanBody env result =
     (case rawValueOf result of
        None \<Rightarrow> ([Set_scanning False], Inl Invalid_scan_result)
      | Some Unusable \<Rightarrow> ([Set_scanning False], Inl Json_parse_error)
      | Some (Json studentData) \<Rightarrow>
          (case profiles env (user_id studentData) of
             None \<Rightarrow> ([Set_scanning False], Inl Profile_not_found)
           | Some profile \<Rightarrow>
               (let birthdayToday = checkIfBirthday (newDate env) (today env) (birthday profile);
                    greeted = [Set_scanning False, Set_is_birthday birthdayToday] @
                              (if birthdayToday then [Play_birthday_animation] else []);
                    existing = existingAttendance env (user_id studentData);
                    status = getAttendanceStatus (status_now env);
                    hours = getHours (now env);
                    finalStatus = status;
                    delay = (if birthdayToday then 5000 else 3000)
                in case sessionCheck existing hours of
                     Some Both_sessions \<Rightarrow>
                       (greeted @ [Toast (Already_marked_today birthdayToday),
                                   Set_timeout Resume_scanning delay],
                        Inr Rejected_both_sessions)
                   | Some This_session \<Rightarrow>
                       (greeted @ [Toast (Already_marked_this_session birthdayToday),
                                   Set_timeout Resume_scanning delay],
                        Inr Rejected_this_session)
                   | None \<Rightarrow>
                       if insert_error env then (greeted, Inl Insert_error)
                       else
                         (let recorded =
                                greeted @
                                [Insert_attendance (user_id studentData) (name studentData)
                                   (class_section studentData) (or_else (user env) [])
                                   finalStatus (truthy (parent_number profile)),
                                 Set_scanned_student finalStatus,
                                 Toast (Attendance_recorded birthdayToday finalStatus)];
                              mail = emailStep env studentData profile finalStatus
                          in case snd mail of
                               Some e \<Rightarrow> (recorded @ fst mail, Inl e)
                             | None \<Rightarrow>
                                 (recorded @ fst mail @
                                  pushStep env studentData finalStatus @
                                  smsStep env studentData profile finalStatus @
                                  [Set_timeout Reset_after_recording delay],
                                  Inr (Recorded finalStatus))))))"

text \<open>
  One pass: nothing happens on a falsy argument or while \<open>scanning\<close> is off;
  otherwise the body runs and the \<^verbatim>\<open>catch\<close> turns an exception into the
  "Scan Failed" toast and a resume after two seconds.
\<close>

definition handleScan :: "Env \<Rightarrow> ScanResult \<Rightarrow> Outcome \<times> Effect list" where
  "handleScan env result =
     (if result = Falsy \<or> \<not> scanning env then (Ignored, [])
      else (case scanBody env result of
              (effs, Inl e) \<Rightarrow>
                (Failed e,
                 effs @ [Console_error Scan_error, Toast Scan_failed,
                         Set_timeout Resume_scanning 2000])
            | (effs, Inr ended) \<Rightarrow> (ended, effs)))"

text \<open>What a trace did: rows inserted and delivery calls made.\<close>

fun isInsert :: "Effect \<Rightarrow> bool" where
  "isInsert (Insert_attendance _ _ _ _ _ _) = True"
| "isInsert _ = False"

fun isEmail :: "Effect \<Rightarrow> bool" where
  "isEmail (Invoke_send_email _ _ _ _) = True"
| "isEmail _ = False"

fun isPush :: "Effect \<Rightarrow> bool" where
  "isPush (Invoke_send_notification _ _ _) = True"
| "isPush _ = False"

fun isSms :: "Effect \<Rightarrow> bool" where
  "isSms (Invoke_send_sms _ _ _) = True"
| "isSms _ = False"

fun insertedStatus :: "Effect \<Rightarrow> AttendanceStatus option" where
  "insertedStatus (Insert_attendance _ _ _ _ s _) = Some s"
| "insertedStatus _ = None"

text \<open>The hour windows of the two sessions.\<close>

definition inMorning :: "nat \<Rightarrow> bool" where
  "inMorning h = (6 \<le> h \<and> h < 12)"

definition inAfternoon :: "nat \<Rightarrow> bool" where
  "inAfternoon h = (12 \<le> h \<and> h < 16)"

text \<open>A reading of the clock at \<open>h:m\<close> on 6 January 2025, for the examples.\<close>

definition clock :: "nat \<Rightarrow> nat \<Rightarrow> Date" where
  "clock h m = \<lparr>getFullYear = 2025, getMonth = 0, getDate = 6, getHours = h, getMinutes = m\<rparr>"

section \<open>The ratings screen (AdminRatings): statistics\<close>

text \<open>
  A row of \<^verbatim>\<open>app_ratings\<close>, with the eight question columns the aggregation reads;
  each is a number or null. Numbers are exact rationals here: the JavaScript sums
  and quotients are taken without floating-point rounding.
\<close>

record Rating =
  ease_of_use :: "rat option"
  interface_design :: "rat option"
  qr_code_functionality :: "rat option"
  attendance_tracking :: "rat option"
  response_speed :: "rat option"
  reliability :: "rat option"
  overall_satisfaction :: "rat option"
  would_recommend :: "rat option"

datatype QuestionKey =
    Ease_of_use | Interface_design | Qr_code_functionality | Attendance_tracking
  | Response_speed | Reliability | Overall_satisfaction | Would_recommend

definition questionKeys :: "QuestionKey list" where
  "questionKeys =
     [Ease_of_use, Interface_design, Qr_code_functionality, Attendance_tracking,
      Response_speed, Reliability, Overall_satisfaction, Would_recommend]"

text \<open>\<^verbatim>\<open>rating[key]\<close>; \<open>Some\<close> exactly when \<^verbatim>\<open>typeof value === 'number'\<close>.\<close>

fun valueAt :: "Rating \<Rightarrow> QuestionKey \<Rightarrow> rat option" where
  "valueAt r Ease_of_use = ease_of_use r"
| "valueAt r Interface_design = interface_design r"
| "valueAt r Qr_code_functionality = qr_code_functionality r"
| "valueAt r Attendance_tracking = attendance_tracking r"
| "valueAt r Response_speed = response_speed r"
| "valueAt r Reliability = reliability r"
| "valueAt r Overall_satisfaction = overall_satisfaction r"
| "valueAt r Would_recommend = would_recommend r"

record Stat =
  sum_s :: rat
  count :: nat
  avg :: rat

record Statistics =
  byQuestion :: "QuestionKey \<Rightarrow> Stat"
  overallAvg :: rat
  totalResponses :: nat

text \<open>
  The table \<open>stats\<close> has one entry per question key, so it is a function on the
  keys; the first loop sets every entry to zeros. Each \<^verbatim>\<open>forEach\<close> is a \<open>fold\<close>.
\<close>

definition addRating :: "Rating \<Rightarrow> (QuestionKey \<Rightarrow> Stat) \<Rightarrow> (QuestionKey \<Rightarrow> Stat)" where
  "addRating rating =
     fold (\<lambda>key stats.
             case valueAt rating key of
               Some v \<Rightarrow>
                 stats(key := (stats key)\<lparr>sum_s := sum_s (stats key) + v,
                                           count := count (stats key) + 1\<rparr>)
             | None \<Rightarrow> stats)
          questionKeys"

definition setAverages :: "(QuestionKey \<Rightarrow> Stat) \<Rightarrow> (QuestionKey \<Rightarrow> Stat)" where
  "setAverages =
     fold (\<lambda>key stats.
             if count (stats key) > 0
             then stats(key := (stats key)\<lparr>avg := sum_s (stats key) / of_nat (count (stats key))\<rparr>)
             else stats)
          questionKeys"

definition totals :: "(QuestionKey \<Rightarrow> Stat) \<Rightarrow> rat \<times> nat" where
  "totals stats =
     fold (\<lambda>key (totalSum, totalCount).
             (totalSum + sum_s (stats key), totalCount + count (stats key)))
          questionKeys (0, 0)"

definition statistics :: "Rating list \<Rightarrow> Statistics option" where
  "statistics ratings =
     (if length ratings = 0 then None
      else
        (let stats0 = (\<lambda>key. \<lparr>sum_s = 0, count = 0, avg = 0\<rparr>);
             stats1 = fold addRating ratings stats0;
             stats = setAverages stats1;
             (totalSum, totalCount) = totals stats
         in Some \<lparr>byQuestion = stats,
                   overallAvg = (if totalCount > 0 then totalSum / of_nat totalCount else 0),
                   totalResponses = length ratings\<rparr>))"

text \<open>The numeric answers to one question, in row order, and to all eight.\<close>

definition answers :: "QuestionKey \<Rightarrow> Rating list \<Rightarrow> rat list" where
  "answers key ratings = List.map_filter (\<lambda>r. valueAt r key) ratings"

definition allAnswers :: "Rating list \<Rightarrow> rat list" where
  "allAnswers ratings = concat (map (\<lambda>key. answers key ratings) questionKeys)"

definition mean :: "rat list \<Rightarrow> rat" where
  "mean vs = (if vs = [] then 0 else sum_list vs / of_nat (length vs))"

section \<open>Example inputs\<close>

text \<open>
  One student with a profile that has an email address and a parent's phone
  number, an attendance row scanned at a given time, and an environment in which
  the device stands eight hours east of UTC, all three clock readings are the same
  instant, the queries answer for that student and every call succeeds.
\<close>

definition student :: ScanPayload where
  "student = \<lparr>user_id = ''s1'', name = ''Ana'', class_section = ''7-A''\<rparr>"

definition profile0 :: StudentProfile where
  "profile0 = \<lparr>birthday = Some ''2010-03-15'', email = Some ''parent@example.org'',
                parent_number = Some ''09170000000'', parent_guardian_name = None\<rparr>"

definition row_at :: "nat \<Rightarrow> nat \<Rightarrow> AttendanceRecord" where
  "row_at h m = \<lparr>scanned_at = clock h m\<rparr>"

definition env_at :: "Date \<Rightarrow> AttendanceRecord list \<Rightarrow> Env" where
  "env_at t rows =
     \<lparr>scanning = True, user = Some ''admin'', newDate = dateOnly 480,
      today = t, status_now = t, now = t,
      profiles = (\<lambda>u. if u = ''s1'' then Some profile0 else None),
      existingAttendance = (\<lambda>u. if u = ''s1'' then Some rows else Some []),
      insert_error = False, send_email = Resolves_data,
      send_notification = Resolves_data, send_sms = Resolves_data\<rparr>"

text \<open>
  Two rating rows: the first answers ease of use with 5 and interface design with 3,
  the second answers ease of use with 4; every other answer is null.
\<close>

definition noAnswers :: Rating where
  "noAnswers = \<lparr>ease_of_use = None, interface_design = None, qr_code_functionality = None,
                 attendance_tracking = None, response_speed = None, reliability = None,
                 overall_satisfaction = None, would_recommend = None\<rparr>"

definition exampleRatings :: "Rating list" where
  "exampleRatings =
     [noAnswers\<lparr>ease_of_use := Some 5, interface_design := Some 3\<rparr>,
      noAnswers\<lparr>ease_of_use := Some 4\<rparr>]"

section \<open>The status table\<close>

text \<open>
  C1. With \<open>t\<close> the minutes since midnight of the clock reading, the base status is
  present for \<open>360 \<le> t < 480\<close>, late for \<open>480 \<le> t < 720\<close>, present for
  \<open>720 \<le> t \<le> 795\<close>, absent for \<open>t \<ge> 1050\<close>, and present at every other time
  (before 360, and strictly between 795 and 1050).
\<close>

theorem C1_getAttendanceStatus_table:
  assumes "t = getHours d * 60 + getMinutes d"
  shows "(360 \<le> t \<and> t < 480 \<longrightarrow> getAttendanceStatus d = present) \<and>
         (480 \<le> t \<and> t < 720 \<longrightarrow> getAttendanceStatus d = late) \<and>
         (720 \<le> t \<and> t \<le> 795 \<longrightarrow> getAttendanceStatus d = present) \<and>
         (1050 \<le> t \<longrightarrow> getAttendanceStatus d = absent) \<and>
         (t < 360 \<or> (795 < t \<and> t < 1050) \<longrightarrow> getAttendanceStatus d = present)"
  using assms by (simp add: getAttendanceStatus_def Let_def)

theorem C1_getAttendanceStatus_table_witness:
  "getAttendanceStatus (clock 7 30) = present \<and>
   getAttendanceStatus (clock 9 0) = late \<and>
   getAttendanceStatus (clock 13 0) = present \<and>
   getAttendanceStatus (clock 17 30) = absent \<and>
   getAttendanceStatus (clock 5 0) = present \<and>
   getAttendanceStatus (clock 14 0) = present"
  using C1_getAttendanceStatus_table [of 450 "clock 7 30"]
        C1_getAttendanceStatus_table [of 540 "clock 9 0"]
        C1_getAttendanceStatus_table [of 780 "clock 13 0"]
        C1_getAttendanceStatus_table [of 1050 "clock 17 30"]
        C1_getAttendanceStatus_table [of 300 "clock 5 0"]
        C1_getAttendanceStatus_table [of 840 "clock 14 0"]
  by (simp add: clock_def)

section \<open>Facts about one pass of handleScan\<close>

lemma sessionCheck_rows:
  "sessionCheck (Some rows) h =
     (if (inMorning h \<and> (\<exists>a\<in>set rows. inAfternoon (getHours (scanned_at a)))) \<or>
         (inAfternoon h \<and> (\<exists>a\<in>set rows. inMorning (getHours (scanned_at a))))
      then Some Both_sessions
      else if (inMorning h \<and> (\<exists>a\<in>set rows. inMorning (getHours (scanned_at a)))) \<or>
              (inAfternoon h \<and> (\<exists>a\<in>set rows. inAfternoon (getHours (scanned_at a))))
      then Some This_session
      else None)"
  by (auto simp: sessionCheck_def Let_def inMorning_def inAfternoon_def filter_empty_conv)

lemma rawValueOf_Some_not_Falsy: "rawValueOf result = Some q \<Longrightarrow> result \<noteq> Falsy"
  by (auto simp: rawValueOf_def)

lemma handleScan_rejected:
  assumes "scanning env" and "rawValueOf result = Some (Json sd)"
    and "profiles env (user_id sd) = Some p"
    and "sessionCheck (existingAttendance env (user_id sd)) (getHours (now env)) = Some rj"
  shows "fst (handleScan env result) =
           (case rj of Both_sessions \<Rightarrow> Rejected_both_sessions
                     | This_session \<Rightarrow> Rejected_this_session)"
    and "\<not> list_ex isInsert (snd (handleScan env result))"
    and "\<not> list_ex isEmail (snd (handleScan env result))"
    and "\<not> list_ex isPush (snd (handleScan env result))"
    and "\<not> list_ex isSms (snd (handleScan env result))"
  using assms rawValueOf_Some_not_Falsy [OF assms(2)]
  by (cases rj; simp add: handleScan_def scanBody_def Let_def)+

lemma emailStep_effects:
  "list_all (\<lambda>e. \<not> isInsert e \<and> \<not> isPush e \<and> \<not> isSms e) (fst (emailStep env sd p st))"
  by (simp add: emailStep_def Let_def split: Invocation.split)

lemma pushStep_effects:
  "list_all (\<lambda>e. \<not> isInsert e \<and> \<not> isEmail e \<and> \<not> isSms e) (pushStep env sd st)"
  by (simp add: pushStep_def Let_def split: Invocation.split)

lemma smsStep_effects:
  "list_all (\<lambda>e. \<not> isInsert e \<and> \<not> isEmail e \<and> \<not> isPush e) (smsStep env sd p st)"
  by (simp add: smsStep_def Let_def split: Invocation.split)

lemma handleScan_insert_unchecked:
  assumes "list_ex isInsert (snd (handleScan env result))"
  shows "\<exists>sd. rawValueOf result = Some (Json sd) \<and>
              sessionCheck (existingAttendance env (user_id sd)) (getHours (now env)) = None"
proof (cases "rawValueOf result")
  case None
  with assms show ?thesis by (simp add: handleScan_def scanBody_def split: if_splits)
next
  case (Some q)
  show ?thesis
  proof (cases q)
    case Unusable
    with Some assms show ?thesis by (simp add: handleScan_def scanBody_def split: if_splits)
  next
    case (Json sd)
    show ?thesis
    proof (cases "profiles env (user_id sd)")
      case None
      with Some Json assms show ?thesis
        by (simp add: handleScan_def scanBody_def split: if_splits)
    next
      case (Some p)
      show ?thesis
      proof (cases "sessionCheck (existingAttendance env (user_id sd)) (getHours (now env))")
        case None
        with \<open>rawValueOf result = Some q\<close> Json show ?thesis by simp
      next
        case (Some rj)
        have "scanning env" using assms by (simp add: handleScan_def split: if_splits)
        from handleScan_rejected(2) [OF this _ \<open>profiles env (user_id sd) = Some p\<close> Some]
          \<open>rawValueOf result = Some q\<close> Json assms
        show ?thesis by simp
      qed
    qed
  qed
qed

lemma getAttendanceStatus_not_half_day: "getAttendanceStatus d \<noteq> half_day"
  by (simp add: getAttendanceStatus_def Let_def)

lemma emailStep_no_insert: "e \<in> set (fst (emailStep env sd p st)) \<Longrightarrow> insertedStatus e = None"
  by (auto simp: emailStep_def Let_def split: Invocation.splits if_splits)

lemma pushStep_no_insert: "e \<in> set (pushStep env sd st) \<Longrightarrow> insertedStatus e = None"
  by (auto simp: pushStep_def Let_def split: Invocation.splits if_splits)

lemma smsStep_no_insert: "e \<in> set (smsStep env sd p st) \<Longrightarrow> insertedStatus e = None"
  by (auto simp: smsStep_def Let_def split: Invocation.splits if_splits)

lemma scanBody_inserted_status:
  assumes "e \<in> set (fst (scanBody env result))" and "insertedStatus e = Some s"
  shows "s = getAttendanceStatus (status_now env)"
  using assms
  by (auto simp: scanBody_def Let_def
           dest: emailStep_no_insert pushStep_no_insert smsStep_no_insert
           split: option.splits QrText.splits Rejection.splits if_splits)

lemma scanBody_ended:
  assumes "snd (scanBody env result) = Inr (Recorded s)"
  shows "s = getAttendanceStatus (status_now env)"
  using assms
  by (auto simp: scanBody_def Let_def
           split: option.splits QrText.splits Rejection.splits if_splits)

lemma handleScan_inserted_status:
  assumes "e \<in> set (snd (handleScan env result))" and "insertedStatus e = Some s"
  shows "s = getAttendanceStatus (status_now env)"
proof -
  obtain effs ended where b: "scanBody env result = (effs, ended)" by (cases "scanBody env result")
  with assms have "e \<in> set effs"
    by (cases ended) (auto simp: handleScan_def split: if_splits)
  with b scanBody_inserted_status [of e env result s] assms(2) show ?thesis by simp
qed

lemma handleScan_recorded_status:
  assumes "fst (handleScan env result) = Recorded s"
  shows "s = getAttendanceStatus (status_now env)"
proof -
  obtain effs ended where b: "scanBody env result = (effs, ended)" by (cases "scanBody env result")
  with assms have "ended = Inr (Recorded s)"
    by (cases ended) (auto simp: handleScan_def split: if_splits)
  with b scanBody_ended [of env result s] show ?thesis by simp
qed

section \<open>Properties of one pass of the scanner\<close>

text \<open>
  C8. No input produces \<open>half_day\<close>: the status function never returns it, no pass
  ends as recorded with it, and no row a pass inserts carries it.
\<close>

theorem C8_never_half_day:
  "getAttendanceStatus d \<noteq> half_day \<and>
   fst (handleScan env result) \<noteq> Recorded half_day \<and>
   (\<forall>e\<in>set (snd (handleScan env result)). insertedStatus e \<noteq> Some half_day)"
  using getAttendanceStatus_not_half_day handleScan_recorded_status handleScan_inserted_status
  by metis

theorem C8_never_half_day_witness:
  "Insert_attendance ''s1'' ''Ana'' ''7-A'' ''admin'' late True
     \<in> set (snd (handleScan (env_at (clock 9 0) []) (Code (Some (Json student))))) \<and>
   insertedStatus (Insert_attendance ''s1'' ''Ana'' ''7-A'' ''admin'' late True) \<noteq> Some half_day \<and>
   fst (handleScan (env_at (clock 9 0) []) (Code (Some (Json student)))) = Recorded late"
proof -
  have run: "handleScan (env_at (clock 9 0) []) (Code (Some (Json student))) =
     (Recorded late,
      [Set_scanning False, Set_is_birthday False,
       Insert_attendance ''s1'' ''Ana'' ''7-A'' ''admin'' late True,
       Set_scanned_student late, Toast (Attendance_recorded False late),
       Invoke_send_email ''parent@example.org'' ''Parent/Guardian'' ''Ana'' late,
       Invoke_send_notification ''s1'' Late_arrival_alert late,
       Invoke_send_sms ''09170000000'' Sms_late ''s1'',
       Set_timeout Reset_after_recording 3000])"
    by code_simp
  from C8_never_half_day [of "clock 9 0" "env_at (clock 9 0) []" "Code (Some (Json student))"]
  show ?thesis unfolding run by simp
qed

text \<open>
  C3. A scan that reaches the duplicate check (scanner on, payload decoded, profile
  found, same-day rows fetched) in the morning window while a fetched row lies in the
  afternoon window, or in the afternoon window while a fetched row lies in the morning
  window, ends on the both-sessions path, and no row is inserted.
\<close>

theorem C3_other_session_rejected:
  assumes "scanning env" and "rawValueOf result = Some (Json sd)"
    and "profiles env (user_id sd) = Some p"
    and "existingAttendance env (user_id sd) = Some rows"
    and "(inMorning (getHours (now env)) \<and>
            (\<exists>a\<in>set rows. inAfternoon (getHours (scanned_at a)))) \<or>
         (inAfternoon (getHours (now env)) \<and>
            (\<exists>a\<in>set rows. inMorning (getHours (scanned_at a))))"
  shows "fst (handleScan env result) = Rejected_both_sessions \<and>
         \<not> list_ex isInsert (snd (handleScan env result))"
proof -
  have "sessionCheck (existingAttendance env (user_id sd)) (getHours (now env)) =
          Some Both_sessions"
    using assms(4,5) by (simp add: sessionCheck_rows)
  from handleScan_rejected(1,2) [OF assms(1-3) this] show ?thesis by simp
qed

theorem C3_other_session_rejected_witness:
  "fst (handleScan (env_at (clock 14 0) [row_at 7 30]) (Code (Some (Json student))))
     = Rejected_both_sessions \<and>
   \<not> list_ex isInsert
       (snd (handleScan (env_at (clock 14 0) [row_at 7 30]) (Code (Some (Json student))))) \<and>
   fst (handleScan (env_at (clock 9 0) [row_at 13 0]) (Code (Some (Json student))))
     = Rejected_both_sessions \<and>
   \<not> list_ex isInsert
       (snd (handleScan (env_at (clock 9 0) [row_at 13 0]) (Code (Some (Json student)))))"
proof -
  have r: "rawValueOf (Code (Some (Json student))) = Some (Json student)"
    by (simp add: rawValueOf_def)
  have a: "scanning (env_at (clock 14 0) [row_at 7 30])"
    "profiles (env_at (clock 14 0) [row_at 7 30]) (user_id student) = Some profile0"
    "existingAttendance (env_at (clock 14 0) [row_at 7 30]) (user_id student) = Some [row_at 7 30]"
    "(inMorning (getHours (now (env_at (clock 14 0) [row_at 7 30]))) \<and>
        (\<exists>a\<in>set [row_at 7 30]. inAfternoon (getHours (scanned_at a)))) \<or>
     (inAfternoon (getHours (now (env_at (clock 14 0) [row_at 7 30]))) \<and>
        (\<exists>a\<in>set [row_at 7 30]. inMorning (getHours (scanned_at a))))"
    by (simp_all add: env_at_def student_def row_at_def clock_def inMorning_def inAfternoon_def)
  have b: "scanning (env_at (clock 9 0) [row_at 13 0])"
    "profiles (env_at (clock 9 0) [row_at 13 0]) (user_id student) = Some profile0"
    "existingAttendance (env_at (clock 9 0) [row_at 13 0]) (user_id student) = Some [row_at 13 0]"
    "(inMorning (getHours (now (env_at (clock 9 0) [row_at 13 0]))) \<and>
        (\<exists>a\<in>set [row_at 13 0]. inAfternoon (getHours (scanned_at a)))) \<or>
     (inAfternoon (getHours (now (env_at (clock 9 0) [row_at 13 0]))) \<and>
        (\<exists>a\<in>set [row_at 13 0]. inMorning (getHours (scanned_at a))))"
    by (simp_all add: env_at_def student_def row_at_def clock_def inMorning_def inAfternoon_def)
  from C3_other_session_rejected [OF a(1) r a(2) a(3) a(4)]
       C3_other_session_rejected [OF b(1) r b(2) b(3) b(4)]
  show ?thesis by simp
qed

text \<open>
  C4. A scan that reaches the duplicate check while the student already has a row
  in the window of the current session is rejected, whatever the clock reading the
  status is computed from; the pass inserts no row and makes no email, push or SMS
  call.
\<close>

theorem C4_same_session_rejected:
  assumes "scanning env" and "rawValueOf result = Some (Json sd)"
    and "profiles env (user_id sd) = Some p"
    and "existingAttendance env (user_id sd) = Some rows"
    and "(inMorning (getHours (now env)) \<and>
            (\<exists>a\<in>set rows. inMorning (getHours (scanned_at a)))) \<or>
         (inAfternoon (getHours (now env)) \<and>
            (\<exists>a\<in>set rows. inAfternoon (getHours (scanned_at a))))"
  shows "(fst (handleScan env result) = Rejected_this_session \<or>
          fst (handleScan env result) = Rejected_both_sessions) \<and>
         \<not> list_ex isInsert (snd (handleScan env result)) \<and>
         \<not> list_ex isEmail (snd (handleScan env result)) \<and>
         \<not> list_ex isPush (snd (handleScan env result)) \<and>
         \<not> list_ex isSms (snd (handleScan env result))"
proof -
  have "sessionCheck (existingAttendance env (user_id sd)) (getHours (now env)) \<noteq> None"
    using assms(4,5) by (simp add: sessionCheck_rows)
  then obtain rj where
    "sessionCheck (existingAttendance env (user_id sd)) (getHours (now env)) = Some rj"
    by blast
  from handleScan_rejected [OF assms(1-3) this] show ?thesis
    by (cases rj) simp_all
qed

theorem C4_same_session_rejected_witness:
  "fst (handleScan (env_at (clock 9 0) [row_at 7 30]) (Code (Some (Json student))))
     = Rejected_this_session \<and>
   \<not> list_ex isInsert
       (snd (handleScan (env_at (clock 9 0) [row_at 7 30]) (Code (Some (Json student))))) \<and>
   \<not> list_ex isEmail
       (snd (handleScan (env_at (clock 9 0) [row_at 7 30]) (Code (Some (Json student))))) \<and>
   \<not> list_ex isPush
       (snd (handleScan (env_at (clock 9 0) [row_at 7 30]) (Code (Some (Json student))))) \<and>
   \<not> list_ex isSms
       (snd (handleScan (env_at (clock 9 0) [row_at 7 30]) (Code (Some (Json student)))))"
proof -
  have r: "rawValueOf (Code (Some (Json student))) = Some (Json student)"
    by (simp add: rawValueOf_def)
  have a: "scanning (env_at (clock 9 0) [row_at 7 30])"
    "profiles (env_at (clock 9 0) [row_at 7 30]) (user_id student) = Some profile0"
    "existingAttendance (env_at (clock 9 0) [row_at 7 30]) (user_id student) = Some [row_at 7 30]"
    "(inMorning (getHours (now (env_at (clock 9 0) [row_at 7 30]))) \<and>
        (\<exists>a\<in>set [row_at 7 30]. inMorning (getHours (scanned_at a)))) \<or>
     (inAfternoon (getHours (now (env_at (clock 9 0) [row_at 7 30]))) \<and>
        (\<exists>a\<in>set [row_at 7 30]. inAfternoon (getHours (scanned_at a))))"
    by (simp_all add: env_at_def student_def row_at_def clock_def inMorning_def inAfternoon_def)
  have o: "fst (handleScan (env_at (clock 9 0) [row_at 7 30]) (Code (Some (Json student))))
             \<noteq> Rejected_both_sessions"
    by code_simp
  from C4_same_session_rejected [OF a(1) r a(2) a(3) a(4)] o
  show ?thesis by simp
qed

text \<open>
  C2, as stated, fails. At 13:00, with one row today at 07:30 and every call
  succeeding, the pass ends on the both-sessions path: nothing is inserted and the
  pass is not recorded as present.
\<close>

theorem C2_counterexample:
  "handleScan (env_at (clock 13 0) [row_at 7 30]) (Code (Some (Json student))) =
     (Rejected_both_sessions,
      [Set_scanning False, Set_is_birthday False,
       Toast (Already_marked_today False), Set_timeout Resume_scanning 3000]) \<and>
   \<not> (fst (handleScan (env_at (clock 13 0) [row_at 7 30]) (Code (Some (Json student))))
          = Recorded present \<and>
        list_ex isInsert
          (snd (handleScan (env_at (clock 13 0) [row_at 7 30]) (Code (Some (Json student))))))"
  by code_simp

text \<open>
  C2, amended. A scan at 13:00 by a student whose only row today lies in the morning
  window is rejected on the both-sessions path and inserts no row; the status the
  table gives for 13:00 is present, but it is never written.
\<close>

theorem C2_afternoon_scan_after_morning_row:
  assumes "scanning env" and "rawValueOf result = Some (Json sd)"
    and "profiles env (user_id sd) = Some p"
    and "existingAttendance env (user_id sd) = Some [a]"
    and "inMorning (getHours (scanned_at a))"
    and "getHours (now env) = 13"
  shows "fst (handleScan env result) = Rejected_both_sessions \<and>
         \<not> list_ex isInsert (snd (handleScan env result)) \<and>
         (getHours (status_now env) = 13 \<and> getMinutes (status_now env) = 0 \<longrightarrow>
            getAttendanceStatus (status_now env) = present)"
proof -
  have "sessionCheck (existingAttendance env (user_id sd)) (getHours (now env)) =
          Some Both_sessions"
    using assms(4-6) by (simp add: sessionCheck_rows inAfternoon_def)
  from handleScan_rejected(1,2) [OF assms(1-3) this] show ?thesis
    by (simp add: getAttendanceStatus_def)
qed

theorem C2_afternoon_scan_after_morning_row_witness:
  "fst (handleScan (env_at (clock 13 0) [row_at 7 30]) (Codes [Some (Json student)]))
     = Rejected_both_sessions \<and>
   \<not> list_ex isInsert
       (snd (handleScan (env_at (clock 13 0) [row_at 7 30]) (Codes [Some (Json student)]))) \<and>
   getAttendanceStatus (status_now (env_at (clock 13 0) [row_at 7 30])) = present"
proof -
  have r: "rawValueOf (Codes [Some (Json student)]) = Some (Json student)"
    by (simp add: rawValueOf_def)
  have a: "scanning (env_at (clock 13 0) [row_at 7 30])"
    "profiles (env_at (clock 13 0) [row_at 7 30]) (user_id student) = Some profile0"
    "existingAttendance (env_at (clock 13 0) [row_at 7 30]) (user_id student) = Some [row_at 7 30]"
    "inMorning (getHours (scanned_at (row_at 7 30)))"
    "getHours (now (env_at (clock 13 0) [row_at 7 30])) = 13"
    "getHours (status_now (env_at (clock 13 0) [row_at 7 30])) = 13 \<and>
     getMinutes (status_now (env_at (clock 13 0) [row_at 7 30])) = 0"
    by (simp_all add: env_at_def student_def row_at_def clock_def inMorning_def)
  from C2_afternoon_scan_after_morning_row [OF a(1) r a(2) a(3) a(4) a(5)] a(6)
  show ?thesis by simp
qed

text \<open>
  C6, as stated, fails. At 17:30 the student already has a morning row (07:30) and
  an afternoon row (13:00), and the scan is still recorded (as absent) with a new row
  inserted: 17 lies in neither session window, so nothing is checked.
\<close>

theorem C6_counterexample:
  "inMorning (getHours (scanned_at (row_at 7 30))) \<and>
   inAfternoon (getHours (scanned_at (row_at 13 0))) \<and>
   handleScan (env_at (clock 17 30) [row_at 7 30, row_at 13 0]) (Code (Some (Json student))) =
     (Recorded absent,
      [Set_scanning False, Set_is_birthday False,
       Insert_attendance ''s1'' ''Ana'' ''7-A'' ''admin'' absent True,
       Set_scanned_student absent, Toast (Attendance_recorded False absent),
       Invoke_send_email ''parent@example.org'' ''Parent/Guardian'' ''Ana'' absent,
       Invoke_send_notification ''s1'' Absence_alert absent,
       Invoke_send_sms ''09170000000'' Sms_absent ''s1'',
       Set_timeout Reset_after_recording 3000]) \<and>
   list_ex isInsert
     (snd (handleScan (env_at (clock 17 30) [row_at 7 30, row_at 13 0])
        (Code (Some (Json student)))))"
  by code_simp

text \<open>
  C6, amended. When the hour of the scan lies in a session window (6 to 15), a pass
  that inserts a row found no fetched row in the morning or the afternoon window: a
  row of the current session or of the other session rejects the scan before the
  insert, so in particular no row is inserted when the student already has both.
  When the hour lies in neither window the duplicate check rejects nothing.
\<close>

theorem C6_no_insert_within_sessions:
  "((inMorning (getHours (now env)) \<or> inAfternoon (getHours (now env))) \<and>
    list_ex isInsert (snd (handleScan env result)) \<and>
    rawValueOf result = Some (Json sd) \<and>
    existingAttendance env (user_id sd) = Some rows \<longrightarrow>
      (\<forall>a\<in>set rows. \<not> inMorning (getHours (scanned_at a)) \<and>
                     \<not> inAfternoon (getHours (scanned_at a)))) \<and>
   (\<not> inMorning (getHours (now env)) \<and> \<not> inAfternoon (getHours (now env)) \<longrightarrow>
      fst (handleScan env result) \<noteq> Rejected_both_sessions \<and>
      fst (handleScan env result) \<noteq> Rejected_this_session)"
proof (intro conjI impI)
  assume h: "(inMorning (getHours (now env)) \<or> inAfternoon (getHours (now env))) \<and>
    list_ex isInsert (snd (handleScan env result)) \<and>
    rawValueOf result = Some (Json sd) \<and>
    existingAttendance env (user_id sd) = Some rows"
  then obtain sd' where "rawValueOf result = Some (Json sd')"
    and "sessionCheck (existingAttendance env (user_id sd')) (getHours (now env)) = None"
    using handleScan_insert_unchecked [of env result] by blast
  with h have "sessionCheck (Some rows) (getHours (now env)) = None" by simp
  with h show "\<forall>a\<in>set rows. \<not> inMorning (getHours (scanned_at a)) \<and>
                     \<not> inAfternoon (getHours (scanned_at a))"
    by (auto simp: sessionCheck_rows split: if_splits)
next
  assume h: "\<not> inMorning (getHours (now env)) \<and> \<not> inAfternoon (getHours (now env))"
  have n: "sessionCheck ex (getHours (now env)) = None" for ex
    using h by (cases ex) (simp_all add: sessionCheck_rows, simp add: sessionCheck_def)
  show "fst (handleScan env result) \<noteq> Rejected_both_sessions"
    by (auto simp: handleScan_def scanBody_def Let_def n
             split: option.splits QrText.splits if_splits)
  show "fst (handleScan env result) \<noteq> Rejected_this_session"
    by (auto simp: handleScan_def scanBody_def Let_def n
             split: option.splits QrText.splits if_splits)
qed

theorem C6_no_insert_within_sessions_witness:
  "list_ex isInsert
     (snd (handleScan (env_at (clock 7 30) [row_at 5 30]) (Code (Some (Json student))))) \<and>
   \<not> inMorning (getHours (scanned_at (row_at 5 30))) \<and>
   \<not> inAfternoon (getHours (scanned_at (row_at 5 30))) \<and>
   fst (handleScan (env_at (clock 17 30) [row_at 7 30, row_at 13 0])
          (Code (Some (Json student)))) \<noteq> Rejected_both_sessions \<and>
   fst (handleScan (env_at (clock 17 30) [row_at 7 30, row_at 13 0])
          (Code (Some (Json student)))) \<noteq> Rejected_this_session"
proof -
  have a: "inMorning (getHours (now (env_at (clock 7 30) [row_at 5 30])))"
    "rawValueOf (Code (Some (Json student))) = Some (Json student)"
    "existingAttendance (env_at (clock 7 30) [row_at 5 30]) (user_id student) = Some [row_at 5 30]"
    by (simp_all add: env_at_def student_def clock_def inMorning_def rawValueOf_def)
  have i: "list_ex isInsert
     (snd (handleScan (env_at (clock 7 30) [row_at 5 30]) (Code (Some (Json student)))))"
    by code_simp
  have b: "\<not> inMorning (getHours (now (env_at (clock 17 30) [row_at 7 30, row_at 13 0])))"
    "\<not> inAfternoon (getHours (now (env_at (clock 17 30) [row_at 7 30, row_at 13 0])))"
    by (simp_all add: env_at_def clock_def inMorning_def inAfternoon_def)
  from C6_no_insert_within_sessions
         [of "env_at (clock 7 30) [row_at 5 30]" "Code (Some (Json student))" student
             "[row_at 5 30]"]
       C6_no_insert_within_sessions
         [of "env_at (clock 17 30) [row_at 7 30, row_at 13 0]" "Code (Some (Json student))"
             student "[row_at 7 30, row_at 13 0]"]
       a i b
  show ?thesis by simp
qed

text \<open>
  C5, evaluated where it fails. At 09:00 (late), no rows today, with the email call
  throwing: the row is inserted and the email call made, then the exception reaches
  the outer handler, which reports "Scan Failed"; neither the push nor the SMS call
  is made. With the push and the SMS calls throwing instead, each exception is
  caught and logged where it is raised and the pass ends as recorded.
\<close>

theorem C5_email_throw_aborts_the_pass:
  "handleScan ((env_at (clock 9 0) [])\<lparr>send_email := Throws\<rparr>) (Code (Some (Json student))) =
     (Failed Invoke_threw,
      [Set_scanning False, Set_is_birthday False,
       Insert_attendance ''s1'' ''Ana'' ''7-A'' ''admin'' late True,
       Set_scanned_student late, Toast (Attendance_recorded False late),
       Invoke_send_email ''parent@example.org'' ''Parent/Guardian'' ''Ana'' late,
       Console_error Scan_error, Toast Scan_failed, Set_timeout Resume_scanning 2000]) \<and>
   handleScan ((env_at (clock 9 0) [])\<lparr>send_notification := Throws, send_sms := Throws\<rparr>)
       (Code (Some (Json student))) =
     (Recorded late,
      [Set_scanning False, Set_is_birthday False,
       Insert_attendance ''s1'' ''Ana'' ''7-A'' ''admin'' late True,
       Set_scanned_student late, Toast (Attendance_recorded False late),
       Invoke_send_email ''parent@example.org'' ''Parent/Guardian'' ''Ana'' late,
       Invoke_send_notification ''s1'' Late_arrival_alert late, Console_error Push_unexpected,
       Invoke_send_sms ''09170000000'' Sms_late ''s1'', Console_error Sms_unexpected,
       Set_timeout Reset_after_recording 3000])"
  by code_simp

lemma pushStep_calls:
  "list_ex isPush (pushStep env sd st) \<longleftrightarrow> st = late \<or> st = absent \<or> st = half_day"
  by (simp add: pushStep_def Let_def split: Invocation.split)

lemma emailStep_calls: "list_ex isEmail (fst (emailStep env sd p st)) \<longleftrightarrow> truthy (email p)"
  by (simp add: emailStep_def Let_def split: Invocation.split)

lemma smsStep_calls: "list_ex isSms (smsStep env sd p st) \<longleftrightarrow> truthy (parent_number p)"
  by (simp add: smsStep_def Let_def split: Invocation.split)

lemma handleScan_recorded_trace:
  assumes "fst (handleScan env result) = Recorded st"
    and "rawValueOf result = Some (Json sd)"
    and "profiles env (user_id sd) = Some p"
  shows "snd (handleScan env result) =
           ([Set_scanning False, Set_is_birthday (checkIfBirthday (newDate env) (today env) (birthday p))] @
            (if checkIfBirthday (newDate env) (today env) (birthday p) then [Play_birthday_animation] else []) @
            [Insert_attendance (user_id sd) (name sd) (class_section sd) (or_else (user env) [])
               st (truthy (parent_number p)),
             Set_scanned_student st,
             Toast (Attendance_recorded (checkIfBirthday (newDate env) (today env) (birthday p)) st)]) @
           fst (emailStep env sd p st) @ pushStep env sd st @ smsStep env sd p st @
           [Set_timeout Reset_after_recording
              (if checkIfBirthday (newDate env) (today env) (birthday p) then 5000 else 3000)]"
  using assms rawValueOf_Some_not_Falsy [OF assms(2)]
  by (auto simp: handleScan_def scanBody_def Let_def
           split: option.splits Rejection.splits if_splits)

text \<open>
  A pass that ends as recorded with status \<open>st\<close> made the push call exactly when
  \<open>st\<close> is late, absent or half_day, the email call exactly when the profile has an
  email address and the SMS call exactly when it has a parent's number.
\<close>

lemma recorded_pass_dispatches:
  assumes "fst (handleScan env result) = Recorded st"
    and "rawValueOf result = Some (Json sd)"
    and "profiles env (user_id sd) = Some p"
  shows "(list_ex isPush (snd (handleScan env result)) \<longleftrightarrow>
            st = late \<or> st = absent \<or> st = half_day) \<and>
         (list_ex isEmail (snd (handleScan env result)) \<longleftrightarrow> truthy (email p)) \<and>
         (list_ex isSms (snd (handleScan env result)) \<longleftrightarrow> truthy (parent_number p)) \<and>
         (st = present \<and> truthy (email p) \<and> truthy (parent_number p) \<longrightarrow>
            \<not> list_ex isPush (snd (handleScan env result)) \<and>
            list_ex isEmail (snd (handleScan env result)) \<and>
            list_ex isSms (snd (handleScan env result)))"
proof -
  note t = handleScan_recorded_trace [OF assms]
  have e: "list_all (\<lambda>e. \<not> isInsert e \<and> \<not> isPush e \<and> \<not> isSms e) (fst (emailStep env sd p st))"
    by (rule emailStep_effects)
  have u: "list_all (\<lambda>e. \<not> isInsert e \<and> \<not> isEmail e \<and> \<not> isSms e) (pushStep env sd st)"
    by (rule pushStep_effects)
  have m: "list_all (\<lambda>e. \<not> isInsert e \<and> \<not> isEmail e \<and> \<not> isPush e) (smsStep env sd p st)"
    by (rule smsStep_effects)
  have push: "list_ex isPush (snd (handleScan env result)) \<longleftrightarrow> list_ex isPush (pushStep env sd st)"
    using e m unfolding t by (auto simp: list_ex_iff list_all_iff)
  have mail: "list_ex isEmail (snd (handleScan env result)) \<longleftrightarrow>
              list_ex isEmail (fst (emailStep env sd p st))"
    using u m unfolding t by (auto simp: list_ex_iff list_all_iff)
  have sms: "list_ex isSms (snd (handleScan env result)) \<longleftrightarrow>
             list_ex isSms (smsStep env sd p st)"
    using e u unfolding t by (auto simp: list_ex_iff list_all_iff)
  show ?thesis
    unfolding push mail sms pushStep_calls emailStep_calls smsStep_calls by auto
qed

text \<open>
  C7, evaluated where it fails. With the email call throwing, the scan at 09:00 is
  accepted and its row inserted with status late, yet no push call is made; the scan
  at 07:30 is accepted and its row inserted with status present, the profile has an
  email address and a parent's number, yet no SMS call is made.
\<close>

theorem C7_email_throw_skips_push_and_sms:
  "snd (handleScan ((env_at (clock 9 0) [])\<lparr>send_email := Throws\<rparr>) (Code (Some (Json student)))) =
     [Set_scanning False, Set_is_birthday False,
      Insert_attendance ''s1'' ''Ana'' ''7-A'' ''admin'' late True,
      Set_scanned_student late, Toast (Attendance_recorded False late),
      Invoke_send_email ''parent@example.org'' ''Parent/Guardian'' ''Ana'' late,
      Console_error Scan_error, Toast Scan_failed, Set_timeout Resume_scanning 2000] \<and>
   \<not> list_ex isPush
       (snd (handleScan ((env_at (clock 9 0) [])\<lparr>send_email := Throws\<rparr>)
          (Code (Some (Json student))))) \<and>
   snd (handleScan ((env_at (clock 7 30) [])\<lparr>send_email := Throws\<rparr>) (Code (Some (Json student)))) =
     [Set_scanning False, Set_is_birthday False,
      Insert_attendance ''s1'' ''Ana'' ''7-A'' ''admin'' present True,
      Set_scanned_student present, Toast (Attendance_recorded False present),
      Invoke_send_email ''parent@example.org'' ''Parent/Guardian'' ''Ana'' present,
      Console_error Scan_error, Toast Scan_failed, Set_timeout Resume_scanning 2000] \<and>
   truthy (email profile0) \<and> truthy (parent_number profile0) \<and>
   \<not> list_ex isSms
       (snd (handleScan ((env_at (clock 7 30) [])\<lparr>send_email := Throws\<rparr>)
          (Code (Some (Json student)))))"
  by code_simp

section \<open>Facts about reading a date\<close>

lemma digit_digitChar: "k < 10 \<Longrightarrow> digit (digitChar k) = Some k"
  by (simp add: digit_def digitChar_def Let_def)

lemma digits_pad2: "n < 100 \<Longrightarrow> digits 0 (pad2 n) = Some n"
  by (simp add: pad2_def digit_digitChar)

lemma decimal4:
  "((n div 1000 * 10 + n div 100 mod 10) * 10 + n div 10 mod 10) * 10 + n mod 10 = (n::nat)"
proof -
  have a: "n div 100 = n div 10 div 10" "n div 1000 = n div 10 div 10 div 10"
    by (simp_all add: div_mult2_eq)
  show ?thesis unfolding a
    by (metis div_mult_mod_eq)
qed

lemma digits_pad4: "n < 10000 \<Longrightarrow> digits 0 (pad4 n) = Some n"
proof -
  assume "n < 10000"
  then have "n div 1000 < 10" by simp
  then have "digits 0 (pad4 n) =
      Some (((n div 1000 * 10 + n div 100 mod 10) * 10 + n div 10 mod 10) * 10 + n mod 10)"
    by (simp add: pad4_def digit_digitChar)
  then show ?thesis by (simp only: decimal4)
qed

lemma daysInMonth_le: "daysInMonth y m \<le> 31"
  by (simp add: daysInMonth_def)

lemma isoDate_parts:
  assumes "validDate y m d"
  shows "length (isoDate y m d) = 10" "isoDate y m d ! 4 = CHR ''-''"
    "isoDate y m d ! 7 = CHR ''-''"
    "digits 0 (take 4 (isoDate y m d)) = Some y"
    "digits 0 (take 2 (drop 5 (isoDate y m d))) = Some m"
    "digits 0 (drop 8 (isoDate y m d)) = Some d"
proof -
  have y: "digits 0 (pad4 y) = Some y" using assms by (simp add: validDate_def digits_pad4)
  have m: "digits 0 (pad2 m) = Some m" using assms by (simp add: validDate_def digits_pad2)
  have "d \<le> 31" using assms daysInMonth_le [of y m] by (simp add: validDate_def)
  then have d: "digits 0 (pad2 d) = Some d" by (simp add: digits_pad2)
  have s: "take 4 (isoDate y m d) = pad4 y" "take 2 (drop 5 (isoDate y m d)) = pad2 m"
    "drop 8 (isoDate y m d) = pad2 d"
    by (simp_all add: isoDate_def pad4_def pad2_def)
  show "length (isoDate y m d) = 10" "isoDate y m d ! 4 = CHR ''-''"
    "isoDate y m d ! 7 = CHR ''-''"
    by (simp_all add: isoDate_def pad4_def pad2_def)
  show "digits 0 (take 4 (isoDate y m d)) = Some y"
    "digits 0 (take 2 (drop 5 (isoDate y m d))) = Some m"
    "digits 0 (drop 8 (isoDate y m d)) = Some d"
    unfolding s by (rule y m d)+
qed

lemma dateOnly_east:
  assumes "validDate y m d" and "0 \<le> offset" and "offset < 1440"
  shows "dateOnly offset (isoDate y m d) =
           Some \<lparr>getFullYear = int y, getMonth = m - 1, getDate = d,
                 getHours = nat (offset div 60), getMinutes = nat (offset mod 60)\<rparr>"
  using assms unfolding dateOnly_def isoDate_parts [OF assms(1)]
  by (simp add: validDate_def)

lemma dateOnly_west:
  assumes "validDate y m d" and "- 1440 \<le> offset" and "offset < 0"
  shows "dateOnly offset (isoDate y m d) =
           (case previousDay y m d of
              (py, pm, pd) \<Rightarrow>
                Some \<lparr>getFullYear = py, getMonth = pm - 1, getDate = pd,
                      getHours = nat ((1440 + offset) div 60),
                      getMinutes = nat ((1440 + offset) mod 60)\<rparr>)"
  using assms unfolding dateOnly_def isoDate_parts [OF assms(1)]
  by (simp add: validDate_def)

section \<open>Properties of the birthday check\<close>

text \<open>
  Whatever the runtime: a null or empty birthday gives false, and the year of today
  is not read.
\<close>

lemma checkIfBirthday_no_birthday:
  "\<not> checkIfBirthday nd td None" "\<not> checkIfBirthday nd td (Some [])"
  by (simp_all add: checkIfBirthday_def)

lemma checkIfBirthday_year_of_today:
  "checkIfBirthday nd (td\<lparr>getFullYear := y\<rparr>) b = checkIfBirthday nd td b"
  by (simp add: checkIfBirthday_def split: option.splits)

text \<open>
  On a device at or east of UTC, a birthday stored as a calendar date is found
  exactly on its own month and day (\<open>getMonth\<close> counts from 0, hence the \<open>+ 1\<close>).
\<close>

lemma checkIfBirthday_east:
  assumes "validDate y m d" and "0 \<le> offset" and "offset < 1440"
  shows "checkIfBirthday (dateOnly offset) td (Some (isoDate y m d)) \<longleftrightarrow>
           getMonth td + 1 = m \<and> getDate td = d"
proof -
  have "isoDate y m d \<noteq> []" by (simp add: isoDate_def)
  moreover have "1 \<le> m" using assms by (simp add: validDate_def)
  ultimately show ?thesis
    by (auto simp: checkIfBirthday_def dateOnly_east [OF assms])
qed

text \<open>
  On a device west of UTC it is found exactly on the month and day of the day
  before.
\<close>

lemma checkIfBirthday_west:
  assumes "validDate y m d" and "- 1440 \<le> offset" and "offset < 0"
  shows "checkIfBirthday (dateOnly offset) td (Some (isoDate y m d)) \<longleftrightarrow>
           (case previousDay y m d of
              (py, pm, pd) \<Rightarrow> getMonth td + 1 = pm \<and> getDate td = pd)"
proof -
  have n: "isoDate y m d \<noteq> []" by (simp add: isoDate_def)
  obtain py pm pd where p: "previousDay y m d = (py, pm, pd)"
    by (cases "previousDay y m d")
  then have "1 \<le> pm"
    using assms(1) by (auto simp: previousDay_def validDate_def split: if_splits)
  then show ?thesis
    using n by (auto simp: checkIfBirthday_def dateOnly_west [OF assms] p)
qed

text \<open>
  C9, evaluated where it fails. On a device five hours west of UTC the stored
  birthday 2010-01-20 reads as 19 January, 19:00: on 20 January 2027 the check is
  false although month and day match the stored birthday, and on 19 January 2027 it
  is true although they do not. On a device eight hours east of UTC the same
  birthday is found on 20 January and not on the 19th.
\<close>

theorem C9_birthday_a_day_early_west_of_UTC:
  "dateOnly (- 300) ''2010-01-20'' =
     Some \<lparr>getFullYear = 2010, getMonth = 0, getDate = 19, getHours = 19, getMinutes = 0\<rparr> \<and>
   \<not> checkIfBirthday (dateOnly (- 300))
       \<lparr>getFullYear = 2027, getMonth = 0, getDate = 20, getHours = 9, getMinutes = 0\<rparr>
       (Some ''2010-01-20'') \<and>
   checkIfBirthday (dateOnly (- 300))
     \<lparr>getFullYear = 2027, getMonth = 0, getDate = 19, getHours = 9, getMinutes = 0\<rparr>
     (Some ''2010-01-20'') \<and>
   checkIfBirthday (dateOnly 480)
     \<lparr>getFullYear = 2027, getMonth = 0, getDate = 20, getHours = 9, getMinutes = 0\<rparr>
     (Some ''2010-01-20'') \<and>
   \<not> checkIfBirthday (dateOnly 480)
       \<lparr>getFullYear = 2027, getMonth = 0, getDate = 19, getHours = 9, getMinutes = 0\<rparr>
       (Some ''2010-01-20'')"
  by code_simp

section \<open>Facts about the aggregation loops\<close>

lemma questionKeys_all: "distinct questionKeys" "key \<in> set questionKeys"
  by (simp add: questionKeys_def, cases key) (simp_all add: questionKeys_def)

lemma fold_update_each:
  "distinct ks \<Longrightarrow>
   fold (\<lambda>k s. s(k := h k (s k))) ks s key = (if key \<in> set ks then h key (s key) else s key)"
  by (induction ks arbitrary: s) auto

lemma addRating_at:
  "addRating rating stats key =
     (case valueAt rating key of
        Some v \<Rightarrow> (stats key)\<lparr>sum_s := sum_s (stats key) + v, count := count (stats key) + 1\<rparr>
      | None \<Rightarrow> stats key)"
proof -
  have "addRating rating =
          fold (\<lambda>k s. s(k := (case valueAt rating k of
                               Some v \<Rightarrow> (s k)\<lparr>sum_s := sum_s (s k) + v, count := count (s k) + 1\<rparr>
                             | None \<Rightarrow> s k))) questionKeys"
    unfolding addRating_def
    by (rule arg_cong [where f = "\<lambda>f. fold f questionKeys"]) (auto intro!: ext split: option.splits)
  then show ?thesis
    using fold_update_each [OF questionKeys_all(1), where key = key] questionKeys_all(2) [of key]
    by simp
qed

lemma answers_Cons:
  "answers key (r # rs) =
     (case valueAt r key of Some v \<Rightarrow> v # answers key rs | None \<Rightarrow> answers key rs)"
  by (simp add: answers_def split: option.split)

lemma fold_addRating_at:
  "sum_s (fold addRating ratings stats key) = sum_s (stats key) + sum_list (answers key ratings) \<and>
   count (fold addRating ratings stats key) = count (stats key) + length (answers key ratings) \<and>
   avg (fold addRating ratings stats key) = avg (stats key)"
proof (induction ratings arbitrary: stats)
  case Nil
  then show ?case by (simp add: answers_def)
next
  case (Cons r rs)
  have step: "fold addRating (r # rs) stats key = fold addRating rs (addRating r stats) key"
    by simp
  show ?case
    unfolding step
    by (cases "valueAt r key")
       (simp_all only: Cons.IH [of "addRating r stats"] addRating_at [of r stats key]
          answers_Cons [of key r rs], simp_all)
qed

lemma setAverages_at:
  "setAverages stats key =
     (if count (stats key) > 0
      then (stats key)\<lparr>avg := sum_s (stats key) / of_nat (count (stats key))\<rparr>
      else stats key)"
proof -
  have "setAverages =
          fold (\<lambda>k s. s(k := (if count (s k) > 0
                              then (s k)\<lparr>avg := sum_s (s k) / of_nat (count (s k))\<rparr>
                              else s k))) questionKeys"
    unfolding setAverages_def
    by (rule arg_cong [where f = "\<lambda>f. fold f questionKeys"]) (auto intro!: ext)
  then show ?thesis
    using fold_update_each [OF questionKeys_all(1), where key = key and s = stats
            and h = "\<lambda>k st. if count st > 0
                            then st\<lparr>avg := sum_s st / of_nat (count st)\<rparr> else st"]
          questionKeys_all(2) [of key]
    by simp
qed

lemma fold_totals:
  "fold (\<lambda>key (a, b). (a + f key, b + g key)) ks (a0, b0) =
     (a0 + sum_list (map f ks), b0 + sum_list (map g ks))"
  by (induction ks arbitrary: a0 b0) (simp_all add: add.assoc)

lemma totals_eq:
  "totals stats =
     (sum_list (map (\<lambda>key. sum_s (stats key)) questionKeys),
      sum_list (map (\<lambda>key. count (stats key)) questionKeys))"
  unfolding totals_def by (simp add: fold_totals)

lemma allAnswers_sum:
  "sum_list (allAnswers ratings) =
     sum_list (map (\<lambda>key. sum_list (answers key ratings)) questionKeys)"
proof -
  have "sum_list (concat xss) = sum_list (map sum_list xss)" for xss :: "rat list list"
    by (induction xss) simp_all
  then show ?thesis by (simp add: allAnswers_def comp_def)
qed

lemma allAnswers_length:
  "length (allAnswers ratings) =
     sum_list (map (\<lambda>key. length (answers key ratings)) questionKeys)"
  by (simp add: allAnswers_def length_concat comp_def)

lemma stats_at:
  fixes ratings key
  defines "st \<equiv> setAverages (fold addRating ratings (\<lambda>key. \<lparr>sum_s = 0, count = 0, avg = 0\<rparr>)) key"
  shows "sum_s st = sum_list (answers key ratings)"
    and "count st = length (answers key ratings)"
    and "avg st = mean (answers key ratings)"
  unfolding st_def setAverages_at
  using fold_addRating_at [of ratings "\<lambda>key. \<lparr>sum_s = 0, count = 0, avg = 0\<rparr>" key]
  by (auto simp: mean_def)

section \<open>Properties of the ratings statistics\<close>

text \<open>
  C10, as stated, fails on the empty list: the aggregation returns null there, so
  there is no average of 0 and no overall average.
\<close>

theorem C10_counterexample: "statistics [] = None"
  by (simp add: statistics_def)

text \<open>
  C10, amended. For every non-empty list of rows the aggregation returns a
  statistics object in which each question's sum, count and average are those of the
  rows' numeric answers to that question (null answers are left out of both; the
  average is 0 when there is none), the overall average is the mean of all numeric
  answers to all eight questions (0 when there is none), and the number of responses
  is the number of rows.
\<close>

theorem C10_statistics_averages:
  assumes "ratings \<noteq> []"
  shows "\<exists>s. statistics ratings = Some s \<and>
             (\<forall>key. sum_s (byQuestion s key) = sum_list (answers key ratings) \<and>
                    count (byQuestion s key) = length (answers key ratings) \<and>
                    avg (byQuestion s key) = mean (answers key ratings)) \<and>
             overallAvg s = mean (allAnswers ratings) \<and>
             totalResponses s = length ratings"
proof -
  define stats where
    "stats = setAverages (fold addRating ratings (\<lambda>key. \<lparr>sum_s = 0, count = 0, avg = 0\<rparr>))"
  have at: "sum_s (stats key) = sum_list (answers key ratings)"
      "count (stats key) = length (answers key ratings)"
      "avg (stats key) = mean (answers key ratings)" for key
    unfolding stats_def by (rule stats_at)+
  have tot: "totals stats = (sum_list (allAnswers ratings), length (allAnswers ratings))"
    by (simp add: totals_eq at allAnswers_sum allAnswers_length)
  have "statistics ratings =
          Some \<lparr>byQuestion = stats, overallAvg = mean (allAnswers ratings),
                totalResponses = length ratings\<rparr>"
    using assms by (simp add: statistics_def Let_def stats_def [symmetric] tot mean_def)
  then show ?thesis using at by simp
qed

theorem C10_statistics_averages_witness:
  "exampleRatings \<noteq> [] \<and>
   (case statistics exampleRatings of
      None \<Rightarrow> False
    | Some s \<Rightarrow>
        avg (byQuestion s Ease_of_use) = 9 / 2 \<and>
        avg (byQuestion s Interface_design) = 3 \<and>
        avg (byQuestion s Reliability) = 0 \<and>
        overallAvg s = 4 \<and> totalResponses s = 2)"
proof -
  have n: "exampleRatings \<noteq> []" by (simp add: exampleRatings_def)
  have m: "mean (answers Ease_of_use exampleRatings) = 9 / 2"
    "mean (answers Interface_design exampleRatings) = 3"
    "mean (answers Reliability exampleRatings) = 0"
    "mean (allAnswers exampleRatings) = 4"
    "length exampleRatings = 2"
    by (simp_all add: mean_def allAnswers_def answers_def questionKeys_def
          exampleRatings_def noAnswers_def)
  from C10_statistics_averages [OF n] m show ?thesis by auto
qed

end
